theory Spec2Isabelle
  imports Complex_Main
begin

section \<open>The GitHub image host of vnote (src/imagehost/githubimagehost.cpp)\<close>

text \<open>
  The class \<^verbatim>\<open>GitHubImageHost\<close> stores images as files of a GitHub repository through
  the Contents API. This theory embeds its member functions as HOL functions and proves
  the properties of the specification about them.

  Strings (\<^verbatim>\<open>QString\<close>) and byte arrays (\<^verbatim>\<open>QByteArray\<close>) are lists of
  characters; the conversions between them are collaborators, see \<open>env\<close> below.
\<close>

type_synonym QString = string
type_synonym QByteArray = string

subsection \<open>JSON values (QJsonValue, QJsonObject)\<close>

text \<open>
  \<^verbatim>\<open>QJsonValue\<close> with the seven cases of \<^verbatim>\<open>QJsonValue::Type\<close>. A
  \<^verbatim>\<open>QJsonObject\<close> is a dictionary from keys to values; a key that is absent maps to
  \<open>None\<close>.
\<close>

datatype QJsonValue =
    JNull
  | JBool bool
  | JDouble real
  | JString QString
  | JArray "QJsonValue list"
  | JObject "QString \<Rightarrow> QJsonValue option"
  | JUndefined

type_synonym QJsonObject = "QString \<Rightarrow> QJsonValue option"

text \<open>\<^verbatim>\<open>obj[key]\<close> and \<^verbatim>\<open>obj.value(key)\<close> when reading: the value of the key, or
  \<^verbatim>\<open>QJsonValue::Undefined\<close> when the key is absent.\<close>

definition jvalue :: "QJsonObject \<Rightarrow> QString \<Rightarrow> QJsonValue" where
  "jvalue obj key = (case obj key of None \<Rightarrow> JUndefined | Some v \<Rightarrow> v)"

text \<open>\<^verbatim>\<open>QJsonValue::toString()\<close>: the string of a string value, the empty string for every
  other value.\<close>

fun toString :: "QJsonValue \<Rightarrow> QString" where
  "toString (JString s) = s"
| "toString _ = []"

text \<open>\<^verbatim>\<open>QJsonValue::toObject()\<close>: the object of an object value, the empty object for every
  other value.\<close>

fun toObject :: "QJsonValue \<Rightarrow> QJsonObject" where
  "toObject (JObject m) = m"
| "toObject _ = Map.empty"

text \<open>\<^verbatim>\<open>QJsonObject::isEmpty()\<close>: the object has no key.\<close>

definition jisEmpty :: "QJsonObject \<Rightarrow> bool" where
  "jisEmpty obj \<longleftrightarrow> obj = Map.empty"

subsection \<open>The network (vte::NetworkAccess, vte::NetworkReply)\<close>

text \<open>
  \<^verbatim>\<open>QNetworkReply::NetworkError\<close>: the two values the code tests for, and every other
  error under its number.
\<close>

datatype NetworkError = NoError | ContentNotFoundError | OtherNetworkError nat

record NetworkReply =
  m_error :: NetworkError
  m_data :: QByteArray

type_synonym RawHeaderPairs = "(QByteArray \<times> QByteArray) list"

text \<open>
  One call of the transport: \<^verbatim>\<open>NetworkAccess::request\<close> (a GET),
  \<^verbatim>\<open>NetworkAccess::put\<close> and \<^verbatim>\<open>NetworkAccess::deleteResource\<close>, each with the
  string its \<^verbatim>\<open>QUrl\<close> is built from, the raw headers and, for the last two, the body.
\<close>

datatype call =
    Get QString RawHeaderPairs
  | Put QString RawHeaderPairs QByteArray
  | Delete QString RawHeaderPairs QByteArray

fun is_Get :: "call \<Rightarrow> bool" where
  "is_Get (Get _ _) = True"
| "is_Get _ = False"

fun is_Put :: "call \<Rightarrow> bool" where
  "is_Put (Put _ _ _) = True"
| "is_Put _ = False"

fun is_Delete :: "call \<Rightarrow> bool" where
  "is_Delete (Delete _ _ _) = True"
| "is_Delete _ = False"

text \<open>
  The collaborators of the class that are not part of the file: the build mode
  (\<^verbatim>\<open>Q_ASSERT\<close> is compiled out when \<^verbatim>\<open>QT_NO_DEBUG\<close> is defined), the UTF-8
  conversions of \<^verbatim>\<open>QString\<close>, the JSON codec \<^verbatim>\<open>Utils::toJsonString\<close> and
  \<^verbatim>\<open>Utils::fromJsonString\<close>, \<^verbatim>\<open>WebUtils::purifyUrl\<close>,
  \<^verbatim>\<open>NetworkReply::errorStr\<close>, and the transport, which answers a call in a state
  \<open>'w\<close> of the outside world and moves to the next state.
\<close>

record 'w env =
  qt_no_debug :: bool
  fromUtf8 :: "QByteArray \<Rightarrow> QString"
  toUtf8 :: "QString \<Rightarrow> QByteArray"
  toJsonString :: "QJsonObject \<Rightarrow> QByteArray"
  fromJsonString :: "QByteArray \<Rightarrow> QJsonObject"
  purifyUrl :: "QString \<Rightarrow> QString"
  errorStr :: "NetworkReply \<Rightarrow> QString"
  send :: "call \<Rightarrow> 'w \<Rightarrow> NetworkReply \<times> 'w"

subsection \<open>The class\<close>

record GitHubImageHost =
  m_personalAccessToken :: QString
  m_userName :: QString
  m_repoName :: QString
  m_imageUrlPrefix :: QString

definition c_apiUrl :: QString where
  "c_apiUrl = ''https://api.github.com''"

text \<open>The object after its constructor: every member is the empty string.\<close>

definition GitHubImageHost_new :: GitHubImageHost where
  "GitHubImageHost_new =
     \<lparr>m_personalAccessToken = [], m_userName = [], m_repoName = [], m_imageUrlPrefix = []\<rparr>"

text \<open>
  The state a member function runs in: the object itself, the state of the transport,
  and the calls issued so far, the oldest first.
\<close>

record 'w state =
  self :: GitHubImageHost
  net_state :: 'w
  net_log :: "call list"

definition issue :: "'w env \<Rightarrow> call \<Rightarrow> 'w state \<Rightarrow> NetworkReply \<times> 'w state" where
  "issue e c s =
     (let (reply, n) = send e c (net_state s)
      in (reply, s\<lparr>net_state := n, net_log := net_log s @ [c]\<rparr>))"

definition request :: "'w env \<Rightarrow> QString \<Rightarrow> RawHeaderPairs \<Rightarrow> 'w state \<Rightarrow> NetworkReply \<times> 'w state" where
  "request e url rawHeader s = issue e (Get url rawHeader) s"

definition put :: "'w env \<Rightarrow> QString \<Rightarrow> RawHeaderPairs \<Rightarrow> QByteArray \<Rightarrow> 'w state \<Rightarrow> NetworkReply \<times> 'w state" where
  "put e url rawHeader data s = issue e (Put url rawHeader data) s"

definition deleteResource :: "'w env \<Rightarrow> QString \<Rightarrow> RawHeaderPairs \<Rightarrow> QByteArray \<Rightarrow> 'w state \<Rightarrow> NetworkReply \<times> 'w state" where
  "deleteResource e url rawHeader data s = issue e (Delete url rawHeader data) s"

text \<open>
  What a call of a member function that contains \<^verbatim>\<open>Q_ASSERT\<close> ends with: the
  program is stopped by a failed assertion, or the function returns. \<open>Q_ASSERT e c\<close>
  holds when execution goes on past \<^verbatim>\<open>Q_ASSERT(c)\<close>.
\<close>

datatype 'a outcome = AssertFailed | Returned 'a

definition Q_ASSERT :: "'w env \<Rightarrow> bool \<Rightarrow> bool" where
  "Q_ASSERT e cond \<longleftrightarrow> qt_no_debug e \<or> cond"

text \<open>
  \<^verbatim>\<open>QByteArray::toBase64()\<close> with its default options: the alphabet of RFC 4648, three
  bytes to four characters, the last group padded with \<^verbatim>\<open>=\<close>.
\<close>

definition base64_alphabet :: string where
  "base64_alphabet = ''ABCDEFGHIJKLMNOPQRSTUVWXYZabcdefghijklmnopqrstuvwxyz0123456789+/''"

definition base64_char :: "nat \<Rightarrow> char" where
  "base64_char n = base64_alphabet ! (n mod 64)"

fun toBase64 :: "QByteArray \<Rightarrow> QByteArray" where
  "toBase64 (a # b # c # rest) =
     (let n = of_char a * 65536 + of_char b * 256 + of_char c
      in base64_char (n div 262144) # base64_char (n div 4096) # base64_char (n div 64)
         # base64_char n # toBase64 rest)"
| "toBase64 [a, b] =
     (let n = of_char a * 65536 + of_char b * 256
      in [base64_char (n div 262144), base64_char (n div 4096), base64_char (n div 64), CHR ''=''])"
| "toBase64 [a] =
     (let n = of_char a * 65536
      in [base64_char (n div 262144), base64_char (n div 4096), CHR ''='', CHR ''=''])"
| "toBase64 [] = []"

text \<open>\<^verbatim>\<open>QString::startsWith\<close>, case sensitive.\<close>

definition startsWith :: "QString \<Rightarrow> QString \<Rightarrow> bool" where
  "startsWith s p \<longleftrightarrow> take (length p) s = p"

text \<open>\<^verbatim>\<open>QString::mid(position)\<close>: the string from \<open>position\<close> on, empty when
  \<open>position\<close> is beyond the end.\<close>

definition mid :: "QString \<Rightarrow> nat \<Rightarrow> QString" where
  "mid s position = drop position s"

text \<open>
  The member functions. \<^verbatim>\<open>tr\<close> returns its argument (no translation is installed),
  and \<^verbatim>\<open>QString::arg\<close> puts its arguments in the places of \<^verbatim>\<open>%1\<close>,
  \<^verbatim>\<open>%2\<close>, ... of the format in one pass, so each formatted string is written as the
  concatenation it is. A reference parameter \<^verbatim>\<open>p_msg\<close> comes in as an argument and
  goes out beside the returned value. \<^verbatim>\<open>qDebug\<close> output is left out. Reading a
  key of the local \<^verbatim>\<open>replyObj\<close> with \<^verbatim>\<open>operator[]\<close> can add a null member to that
  local object; nothing reads the object afterwards, so the read is modelled by \<open>jvalue\<close>.
\<close>

definition ready :: "GitHubImageHost \<Rightarrow> bool" where
  "ready h \<longleftrightarrow> m_personalAccessToken h \<noteq> [] \<and> m_userName h \<noteq> [] \<and> m_repoName h \<noteq> []"

definition getConfig :: "GitHubImageHost \<Rightarrow> QJsonObject" where
  "getConfig h =
     (let obj = Map.empty;
          obj = obj(''personal_access_token'' \<mapsto> JString (m_personalAccessToken h));
          obj = obj(''user_name'' \<mapsto> JString (m_userName h));
          obj = obj(''repository_name'' \<mapsto> JString (m_repoName h))
      in obj)"

definition parseConfig :: "QJsonObject \<Rightarrow> QString \<times> QString \<times> QString" where
  "parseConfig p_jobj =
     (let p_token = toString (jvalue p_jobj ''personal_access_token'');
          p_userName = toString (jvalue p_jobj ''user_name'');
          p_repoName = toString (jvalue p_jobj ''repository_name'')
      in (p_token, p_userName, p_repoName))"

definition setConfig :: "QJsonObject \<Rightarrow> GitHubImageHost \<Rightarrow> GitHubImageHost" where
  "setConfig p_jobj h =
     (let (token, userName, repoName) = parseConfig p_jobj;
          h = h\<lparr>m_personalAccessToken := token, m_userName := userName, m_repoName := repoName\<rparr>
      in h\<lparr>m_imageUrlPrefix :=
             ''https://raw.githubusercontent.com/'' @ m_userName h @ ''/'' @ m_repoName h
             @ ''/master/''\<rparr>)"

definition authorizationHeader :: "'w env \<Rightarrow> QString \<Rightarrow> QByteArray \<times> QByteArray" where
  "authorizationHeader e p_token =
     (let token = ''token '' @ p_token in (''Authorization'', toUtf8 e token))"

definition acceptHeader :: "QByteArray \<times> QByteArray" where
  "acceptHeader = (''Accept'', ''application/vnd.github.v3+json'')"

definition prepareCommonHeaders :: "'w env \<Rightarrow> QString \<Rightarrow> RawHeaderPairs" where
  "prepareCommonHeaders e p_token = [authorizationHeader e p_token, acceptHeader]"

definition getRepoInfo ::
  "'w env \<Rightarrow> QString \<Rightarrow> QString \<Rightarrow> QString \<Rightarrow> 'w state \<Rightarrow> NetworkReply \<times> 'w state" where
  "getRepoInfo e p_token p_userName p_repoName s =
     (let rawHeader = prepareCommonHeaders e p_token;
          urlStr = c_apiUrl @ ''/repos/'' @ p_userName @ ''/'' @ p_repoName
      in request e urlStr rawHeader s)"

definition testConfig ::
  "'w env \<Rightarrow> QJsonObject \<Rightarrow> QString \<Rightarrow> 'w state \<Rightarrow> (bool \<times> QString) \<times> 'w state" where
  "testConfig e p_jobj p_msg s =
     (let p_msg = ([] :: QString);
          (token, userName, repoName) = parseConfig p_jobj
      in if token = [] \<or> userName = [] \<or> repoName = []
         then ((False, ''PersonalAccessToken/UserName/RepositoryName should not be empty.''), s)
         else
           let (reply, s) = getRepoInfo e token userName repoName s;
               p_msg = fromUtf8 e (m_data reply)
           in ((m_error reply = NoError, p_msg), s))"

definition createResource ::
  "'w env \<Rightarrow> QByteArray \<Rightarrow> QString \<Rightarrow> QString \<Rightarrow> 'w state
     \<Rightarrow> (QString \<times> QString) outcome \<times> 'w state" where
  "createResource e p_content p_path p_msg s =
     (if \<not> Q_ASSERT e (p_path \<noteq> []) then (AssertFailed, s)
      else if \<not> ready (self s)
      then (Returned ([], ''Invalid GitHub image host configuration.''), s)
      else
        let rawHeader = prepareCommonHeaders e (m_personalAccessToken (self s));
            urlStr = c_apiUrl @ ''/repos/'' @ m_userName (self s) @ ''/'' @ m_repoName (self s)
                     @ ''/contents/'' @ p_path;
            (reply, s) = request e urlStr rawHeader s
        in if m_error reply = NoError
           then (Returned ([], ''The resource already exists at the image host ('' @ p_path
                               @ '').''), s)
           else if m_error reply \<noteq> ContentNotFoundError
           then (Returned ([], ''Failed to query the resource at the image host ('' @ urlStr
                               @ '') ('' @ errorStr e reply @ '') ('' @ fromUtf8 e (m_data reply)
                               @ '').''), s)
           else
             let requestDataObj = Map.empty;
                 requestDataObj = requestDataObj(''message'' \<mapsto> JString (''VX_ADD: '' @ p_path));
                 requestDataObj = requestDataObj(''content'' \<mapsto>
                                    JString (fromUtf8 e (toBase64 p_content)));
                 requestData = toJsonString e requestDataObj;
                 (reply, s) = put e urlStr rawHeader requestData s
             in if m_error reply \<noteq> NoError
                then (Returned ([], ''Failed to create resource at the image host ('' @ urlStr
                                    @ '') ('' @ errorStr e reply @ '') ('' @ fromUtf8 e (m_data reply)
                                    @ '').''), s)
                else
                  let replyObj = fromJsonString e (m_data reply)
                  in if \<not> Q_ASSERT e (\<not> jisEmpty replyObj) then (AssertFailed, s)
                     else
                       let targetUrl = toString (jvalue (toObject (jvalue replyObj ''content''))
                                                   ''download_url'')
                       in if targetUrl = []
                          then (Returned (targetUrl,
                                  ''Failed to create resource at the image host ('' @ urlStr
                                  @ '') ('' @ errorStr e reply @ '') ('' @ fromUtf8 e (m_data reply)
                                  @ '').''), s)
                          else (Returned (targetUrl, p_msg), s))"

definition create ::
  "'w env \<Rightarrow> QByteArray \<Rightarrow> QString \<Rightarrow> QString \<Rightarrow> 'w state
     \<Rightarrow> (QString \<times> QString) outcome \<times> 'w state" where
  "create e p_data p_path p_msg s =
     (let destUrl = []
      in if p_path = []
         then (Returned (destUrl, ''Failed to create image with empty path.''), s)
         else createResource e p_data p_path p_msg s)"

definition ownsUrl :: "GitHubImageHost \<Rightarrow> QString \<Rightarrow> bool" where
  "ownsUrl h p_url \<longleftrightarrow> startsWith p_url (m_imageUrlPrefix h)"

definition remove ::
  "'w env \<Rightarrow> QString \<Rightarrow> QString \<Rightarrow> 'w state \<Rightarrow> (bool \<times> QString) outcome \<times> 'w state" where
  "remove e p_url p_msg s =
     (if \<not> Q_ASSERT e (ownsUrl (self s) p_url) then (AssertFailed, s)
      else if \<not> ready (self s)
      then (Returned (False, ''Invalid GitHub image host configuration.''), s)
      else
        let resourcePath = purifyUrl e (mid p_url (length (m_imageUrlPrefix (self s))));
            rawHeader = prepareCommonHeaders e (m_personalAccessToken (self s));
            urlStr = c_apiUrl @ ''/repos/'' @ m_userName (self s) @ ''/'' @ m_repoName (self s)
                     @ ''/contents/'' @ resourcePath;
            (reply, s) = request e urlStr rawHeader s
        in if m_error reply \<noteq> NoError
           then (Returned (False, ''Failed to fetch information about the resource (''
                                  @ resourcePath @ '').''), s)
           else
             let replyObj = fromJsonString e (m_data reply)
             in if \<not> Q_ASSERT e (\<not> jisEmpty replyObj) then (AssertFailed, s)
                else
                  let sha = toString (jvalue replyObj ''sha'')
                  in if sha = []
                     then (Returned (False, ''Failed to fetch SHA about the resource (''
                                            @ resourcePath @ '') ('' @ fromUtf8 e (m_data reply)
                                            @ '').''), s)
                     else
                       let requestDataObj = Map.empty;
                           requestDataObj = requestDataObj(''message'' \<mapsto>
                                              JString (''VX_DEL: '' @ resourcePath));
                           requestDataObj = requestDataObj(''sha'' \<mapsto> JString sha);
                           requestData = toJsonString e requestDataObj;
                           (reply, s) = deleteResource e urlStr rawHeader requestData s
                       in if m_error reply \<noteq> NoError
                          then (Returned (False, ''Failed to delete resource ('' @ resourcePath
                                                 @ '') ('' @ fromUtf8 e (m_data reply) @ '').''), s)
                          else (Returned (True, p_msg), s))"

subsection \<open>A scripted transport and a small codec, for running the functions\<close>

text \<open>
  To run the member functions on concrete inputs, the collaborators are instantiated:
  the transport answers the calls with the replies of a script, in order; the UTF-8
  conversions and \<open>purifyUrl\<close> return their argument (ASCII text without a query);
  \<open>test_toJsonString\<close> writes the string members of an object in the compact form
  of \<^verbatim>\<open>QJsonDocument::toJson\<close>, keys in their sorted order; and
  \<open>test_fromJsonString\<close> reads the three response bodies of the examples, and the
  empty object from any other text.
\<close>

definition scripted_send :: "call \<Rightarrow> NetworkReply list \<Rightarrow> NetworkReply \<times> NetworkReply list" where
  "scripted_send c script =
     (case script of
        [] \<Rightarrow> (\<lparr>m_error = OtherNetworkError 99, m_data = []\<rparr>, [])
      | r # rs \<Rightarrow> (r, rs))"

definition quoted :: "QString \<Rightarrow> QString" where
  "quoted x = CHR 0x22 # x @ [CHR 0x22]"

fun members :: "QJsonObject \<Rightarrow> QString list \<Rightarrow> QString list" where
  "members obj [] = []"
| "members obj (k # ks) =
     (case obj k of
        Some (JString v) \<Rightarrow> (quoted k @ '':'' @ quoted v) # members obj ks
      | _ \<Rightarrow> members obj ks)"

fun commas :: "QString list \<Rightarrow> QString" where
  "commas [] = []"
| "commas [x] = x"
| "commas (x # y # ys) = x @ '','' @ commas (y # ys)"

definition test_toJsonString :: "QJsonObject \<Rightarrow> QByteArray" where
  "test_toJsonString obj = ''{'' @ commas (members obj [''content'', ''message'', ''sha'']) @ ''}''"

definition sha_body :: QByteArray where
  "sha_body = ''{'' @ quoted ''sha'' @ '':'' @ quoted ''abc123'' @ ''}''"

definition created_body :: QByteArray where
  "created_body =
     ''{'' @ quoted ''content'' @ '':{'' @ quoted ''download_url'' @ '':''
     @ quoted ''https://raw.githubusercontent.com/u/r/master/img.png'' @ ''}}''"

definition not_found_body :: QByteArray where
  "not_found_body = ''{'' @ quoted ''message'' @ '':'' @ quoted ''Not Found'' @ ''}''"

definition test_fromJsonString :: "QByteArray \<Rightarrow> QJsonObject" where
  "test_fromJsonString b =
     (if b = sha_body then [''sha'' \<mapsto> JString ''abc123'']
      else if b = created_body
      then [''content'' \<mapsto>
              JObject [''download_url'' \<mapsto>
                         JString ''https://raw.githubusercontent.com/u/r/master/img.png'']]
      else if b = not_found_body then [''message'' \<mapsto> JString ''Not Found'']
      else Map.empty)"

definition test_env :: "bool \<Rightarrow> NetworkReply list env" where
  "test_env no_debug =
     \<lparr>qt_no_debug = no_debug,
      fromUtf8 = (\<lambda>b. b),
      toUtf8 = (\<lambda>x. x),
      toJsonString = test_toJsonString,
      fromJsonString = test_fromJsonString,
      purifyUrl = (\<lambda>u. u),
      errorStr = (\<lambda>r. case m_error r of
                          NoError \<Rightarrow> ''Unknown error''
                        | ContentNotFoundError \<Rightarrow> ''Not Found''
                        | OtherNetworkError k \<Rightarrow> ''Network error''),
      send = scripted_send\<rparr>"

definition test_config :: "QString \<Rightarrow> QString \<Rightarrow> QString \<Rightarrow> QJsonObject" where
  "test_config token userName repoName =
     [''personal_access_token'' \<mapsto> JString token, ''user_name'' \<mapsto> JString userName,
      ''repository_name'' \<mapsto> JString repoName]"

definition test_state :: "GitHubImageHost \<Rightarrow> NetworkReply list \<Rightarrow> NetworkReply list state" where
  "test_state h script = \<lparr>self = h, net_state = script, net_log = []\<rparr>"

subsection \<open>The helper that turns the rest of a URL into a path\<close>




section \<open>Properties\<close>

subsection \<open>Reading the definitions\<close>

lemma parseConfig_eq:
  "parseConfig j = (toString (jvalue j ''personal_access_token''), toString (jvalue j ''user_name''),
     toString (jvalue j ''repository_name''))"
  by (simp add: parseConfig_def)

lemma toString_jvalue:
  "toString (jvalue j k) = (case j k of Some (JString x) \<Rightarrow> x | _ \<Rightarrow> [])"
  by (simp add: jvalue_def split: option.split QJsonValue.split)

lemma setConfig_fields:
  "m_personalAccessToken (setConfig j h) = toString (jvalue j ''personal_access_token'')"
  "m_userName (setConfig j h) = toString (jvalue j ''user_name'')"
  "m_repoName (setConfig j h) = toString (jvalue j ''repository_name'')"
  "m_imageUrlPrefix (setConfig j h) =
     ''https://raw.githubusercontent.com/'' @ toString (jvalue j ''user_name'') @ ''/''
     @ toString (jvalue j ''repository_name'') @ ''/master/''"
  by (simp_all add: setConfig_def parseConfig_eq)

lemma getConfig_values:
  "jvalue (getConfig h) ''personal_access_token'' = JString (m_personalAccessToken h)"
  "jvalue (getConfig h) ''user_name'' = JString (m_userName h)"
  "jvalue (getConfig h) ''repository_name'' = JString (m_repoName h)"
  by (simp_all add: getConfig_def jvalue_def)

lemmas call_defs = request_def put_def deleteResource_def issue_def prepareCommonHeaders_def
  authorizationHeader_def acceptHeader_def

lemma ownsUrl_iff: "ownsUrl h u \<longleftrightarrow> (\<exists>rest. u = m_imageUrlPrefix h @ rest)"
proof
  assume "ownsUrl h u"
  then have "take (length (m_imageUrlPrefix h)) u = m_imageUrlPrefix h"
    by (simp add: ownsUrl_def startsWith_def)
  then have "u = m_imageUrlPrefix h @ drop (length (m_imageUrlPrefix h)) u"
    by (metis append_take_drop_id)
  then show "\<exists>rest. u = m_imageUrlPrefix h @ rest" ..
next
  assume "\<exists>rest. u = m_imageUrlPrefix h @ rest"
  then show "ownsUrl h u"
    by (auto simp: ownsUrl_def startsWith_def)
qed


lemma test_host_eq:
  "setConfig (test_config t u r) h
     = h\<lparr>m_personalAccessToken := t, m_userName := u, m_repoName := r,
         m_imageUrlPrefix := ''https://raw.githubusercontent.com/'' @ u @ ''/'' @ r @ ''/master/''\<rparr>"
  by (simp add: setConfig_def parseConfig_eq test_config_def jvalue_def)

lemma separator_split:
  assumes "c \<notin> set a" and "c \<notin> set b" and "a @ c # x = b @ c # y"
  shows "a = b \<and> x = y"
  using assms
proof (induction a arbitrary: b)
  case Nil
  then show ?case by (cases b) auto
next
  case (Cons k a)
  then show ?case by (cases b) auto
qed


lemmas test_defs = test_env_def test_state_def test_host_eq scripted_send_def ready_def
  c_apiUrl_def GitHubImageHost_new_def

subsection \<open>Readiness\<close>

text \<open>
  C9. \<open>ready\<close> (the specification's \<open>isReady\<close>) is true exactly when the access token,
  the owner name and the repository name are all non-empty: for any object, for an object
  with any three strings as its fields, and after configuring from any JSON object. It is
  a function of the object alone: it takes no transport and returns no state, so it does
  no I/O and changes nothing.
\<close>

theorem ready_iff_all_nonempty:
  "(ready h \<longleftrightarrow> m_personalAccessToken h \<noteq> [] \<and> m_userName h \<noteq> [] \<and> m_repoName h \<noteq> [])
   \<and> (ready \<lparr>m_personalAccessToken = t, m_userName = u, m_repoName = r, m_imageUrlPrefix = p\<rparr>
        \<longleftrightarrow> t \<noteq> [] \<and> u \<noteq> [] \<and> r \<noteq> [])
   \<and> (ready (setConfig j h) \<longleftrightarrow>
        toString (jvalue j ''personal_access_token'') \<noteq> []
        \<and> toString (jvalue j ''user_name'') \<noteq> []
        \<and> toString (jvalue j ''repository_name'') \<noteq> [])"
  by (simp add: ready_def setConfig_fields)

subsection \<open>Configuration\<close>

text \<open>
  C10. After \<open>setConfig j\<close> the stored token, owner and repository are the string values
  of the keys \<open>personal_access_token\<close>, \<open>user_name\<close> and \<open>repository_name\<close> of \<open>j\<close>, a
  key that is missing or holds no string reading as the empty string; \<open>getConfig\<close> then
  returns the object with exactly these three keys and the stored values; and configuring
  from that object again leaves the whole object as it is.
\<close>

theorem setConfig_getConfig_roundtrip:
  "m_personalAccessToken (setConfig j h)
     = (case j ''personal_access_token'' of Some (JString x) \<Rightarrow> x | _ \<Rightarrow> [])
   \<and> m_userName (setConfig j h) = (case j ''user_name'' of Some (JString x) \<Rightarrow> x | _ \<Rightarrow> [])
   \<and> m_repoName (setConfig j h)
     = (case j ''repository_name'' of Some (JString x) \<Rightarrow> x | _ \<Rightarrow> [])
   \<and> getConfig (setConfig j h)
     = [''personal_access_token'' \<mapsto> JString (m_personalAccessToken (setConfig j h)),
        ''user_name'' \<mapsto> JString (m_userName (setConfig j h)),
        ''repository_name'' \<mapsto> JString (m_repoName (setConfig j h))]
   \<and> dom (getConfig (setConfig j h)) = {''personal_access_token'', ''user_name'', ''repository_name''}
   \<and> setConfig (getConfig (setConfig j h)) (setConfig j h) = setConfig j h"
proof -
  have f: "m_personalAccessToken (setConfig j h)
             = (case j ''personal_access_token'' of Some (JString x) \<Rightarrow> x | _ \<Rightarrow> [])"
          "m_userName (setConfig j h) = (case j ''user_name'' of Some (JString x) \<Rightarrow> x | _ \<Rightarrow> [])"
          "m_repoName (setConfig j h)
             = (case j ''repository_name'' of Some (JString x) \<Rightarrow> x | _ \<Rightarrow> [])"
    by (simp_all only: setConfig_fields toString_jvalue)
  have g: "getConfig (setConfig j h)
     = [''personal_access_token'' \<mapsto> JString (m_personalAccessToken (setConfig j h)),
        ''user_name'' \<mapsto> JString (m_userName (setConfig j h)),
        ''repository_name'' \<mapsto> JString (m_repoName (setConfig j h))]"
    by (simp add: getConfig_def)
  have d: "dom (getConfig (setConfig j h))
             = {''personal_access_token'', ''user_name'', ''repository_name''}"
    unfolding g by auto
  have r: "setConfig (getConfig (setConfig j h)) (setConfig j h) = setConfig j h"
    by (simp add: setConfig_def parseConfig_eq getConfig_values)
  from f g d r show ?thesis by blast
qed

subsection \<open>Ownership of URLs\<close>

text \<open>
  C6, amended. After \<open>setConfig j\<close>, \<open>ownsUrl u\<close> is true exactly when \<open>u\<close> starts with
  \<open>https://raw.githubusercontent.com/owner/repo/master/\<close>, for the owner and the
  repository read from \<open>j\<close>. When neither the old nor the new owner and repository names
  contain the character \<open>/\<close>, configuring again with a different owner or a different
  repository makes \<open>ownsUrl\<close> false for every URL for which it was true.
\<close>

theorem ownsUrl_after_setConfig:
  assumes "owner = toString (jvalue j ''user_name'')"
    and "repo = toString (jvalue j ''repository_name'')"
    and "owner' = toString (jvalue j' ''user_name'')"
    and "repo' = toString (jvalue j' ''repository_name'')"
  shows "(ownsUrl (setConfig j h) u \<longleftrightarrow>
            (\<exists>rest. u = ''https://raw.githubusercontent.com/'' @ owner @ ''/'' @ repo
                          @ ''/master/'' @ rest))
       \<and> (CHR ''/'' \<notin> set owner \<union> set repo \<union> set owner' \<union> set repo'
            \<and> (owner' \<noteq> owner \<or> repo' \<noteq> repo) \<and> ownsUrl (setConfig j h) u
          \<longrightarrow> \<not> ownsUrl (setConfig j' (setConfig j h)) u)"
proof (intro conjI impI)
  show "ownsUrl (setConfig j h) u \<longleftrightarrow>
            (\<exists>rest. u = ''https://raw.githubusercontent.com/'' @ owner @ ''/'' @ repo
                          @ ''/master/'' @ rest)"
    unfolding assms by (simp add: ownsUrl_iff setConfig_fields)
next
  assume a: "CHR ''/'' \<notin> set owner \<union> set repo \<union> set owner' \<union> set repo'
            \<and> (owner' \<noteq> owner \<or> repo' \<noteq> repo) \<and> ownsUrl (setConfig j h) u"
  show "\<not> ownsUrl (setConfig j' (setConfig j h)) u"
  proof
    assume b: "ownsUrl (setConfig j' (setConfig j h)) u"
    from a obtain x where x: "u = ''https://raw.githubusercontent.com/'' @ owner @ ''/'' @ repo
                          @ ''/master/'' @ x"
      unfolding assms by (auto simp: ownsUrl_iff setConfig_fields)
    from b obtain y where y: "u = ''https://raw.githubusercontent.com/'' @ owner' @ ''/'' @ repo'
                          @ ''/master/'' @ y"
      unfolding assms by (auto simp: ownsUrl_iff setConfig_fields)
    from x y have "owner @ ''/'' @ (repo @ ''/master/'' @ x)
                     = owner' @ ''/'' @ (repo' @ ''/master/'' @ y)"
      by simp
    with a have o: "owner = owner'"
      and "repo @ ''/'' @ (''master/'' @ x) = repo' @ ''/'' @ (''master/'' @ y)"
      using separator_split[where c = "CHR ''/''" and a = owner and b = owner'
          and x = "repo @ ''/master/'' @ x" and y = "repo' @ ''/master/'' @ y"] by auto
    with a have "repo = repo'"
      using separator_split[where c = "CHR ''/''" and a = repo and b = repo'
          and x = "''master/'' @ x" and y = "''master/'' @ y"] by auto
    with o a show False by simp
  qed
qed

theorem ownsUrl_after_setConfig_witness:
  "ownsUrl (setConfig (test_config ''t'' ''alice'' ''notes'') GitHubImageHost_new)
      ''https://raw.githubusercontent.com/alice/notes/master/a.png''
   \<and> \<not> ownsUrl (setConfig (test_config ''t'' ''bob'' ''notes'')
               (setConfig (test_config ''t'' ''alice'' ''notes'') GitHubImageHost_new))
      ''https://raw.githubusercontent.com/alice/notes/master/a.png''"
  using ownsUrl_after_setConfig[where j = "test_config ''t'' ''alice'' ''notes''"
      and j' = "test_config ''t'' ''bob'' ''notes''" and h = GitHubImageHost_new
      and u = "''https://raw.githubusercontent.com/alice/notes/master/a.png''"
      and owner = "''alice''" and repo = "''notes''" and owner' = "''bob''" and repo' = "''notes''"]
  by (simp add: test_config_def jvalue_def)

text \<open>
  Without the condition on \<open>/\<close> the second part fails: a URL of the directory
  \<open>master\<close> of the repository \<open>notes\<close> of \<open>alice\<close> is owned before and after the
  repository is changed to \<open>notes/master\<close>.
\<close>

theorem ownsUrl_flip_counterexample:
  "ownsUrl (setConfig (test_config ''t'' ''alice'' ''notes'') GitHubImageHost_new)
      ''https://raw.githubusercontent.com/alice/notes/master/master/a.png''
   \<and> ''notes/master'' \<noteq> ''notes''
   \<and> ownsUrl (setConfig (test_config ''t'' ''alice'' ''notes/master'')
               (setConfig (test_config ''t'' ''alice'' ''notes'') GitHubImageHost_new))
      ''https://raw.githubusercontent.com/alice/notes/master/master/a.png''"
  by (simp add: test_host_eq ownsUrl_def startsWith_def)

subsection \<open>Creating a resource\<close>

text \<open>
  C7. \<open>create\<close> (the entry point of the specification's \<open>createResource\<close>) called with
  the empty path returns the empty URL with the message
  \<open>Failed to create image with empty path.\<close> and leaves the state as it was, so no call
  is issued: for every content, every object, ready or not, and every transport. The
  check comes before the readiness check, since an object that is not ready gets this
  message too.
\<close>

theorem create_empty_path:
  "create e p_data [] p_msg s = (Returned ([], ''Failed to create image with empty path.''), s)"
  by (simp add: create_def)

text \<open>
  C2. With a non-empty path and a ready object, when the GET that looks for the resource
  reports no error, \<open>create\<close> returns the empty URL with the message
  \<open>The resource already exists at the image host (path).\<close>; the GET is the only call
  it issues, so there is no PUT and the resource is not overwritten.
\<close>

theorem create_existing_resource:
  assumes "p_path \<noteq> []" and "ready (self s)"
    and "urlStr = c_apiUrl @ ''/repos/'' @ m_userName (self s) @ ''/'' @ m_repoName (self s)
                  @ ''/contents/'' @ p_path"
    and "rawHeader = [(''Authorization'', toUtf8 e (''token '' @ m_personalAccessToken (self s))),
                      (''Accept'', ''application/vnd.github.v3+json'')]"
    and "send e (Get urlStr rawHeader) (net_state s) = (reply, n)"
    and "m_error reply = NoError"
  shows "create e p_data p_path p_msg s
           = (Returned ([], ''The resource already exists at the image host ('' @ p_path @ '').''),
              s\<lparr>net_state := n, net_log := net_log s @ [Get urlStr rawHeader]\<rparr>)
       \<and> filter is_Put (net_log (snd (create e p_data p_path p_msg s))) = filter is_Put (net_log s)"
  using assms by (simp add: create_def createResource_def Q_ASSERT_def call_defs Let_def)

theorem create_existing_resource_witness:
  "create (test_env False) ''Man'' ''img.png'' []
     (test_state (setConfig (test_config ''t'' ''u'' ''r'') GitHubImageHost_new)
        [\<lparr>m_error = NoError, m_data = sha_body\<rparr>])
   = (Returned ([], ''The resource already exists at the image host (img.png).''),
      \<lparr>self = setConfig (test_config ''t'' ''u'' ''r'') GitHubImageHost_new,
       net_state = [],
       net_log = [Get ''https://api.github.com/repos/u/r/contents/img.png''
                    [(''Authorization'', ''token t''),
                     (''Accept'', ''application/vnd.github.v3+json'')]]\<rparr>)"
  using create_existing_resource[where e = "test_env False" and p_data = "''Man''"
      and p_path = "''img.png''" and p_msg = "[]"
      and s = "test_state (setConfig (test_config ''t'' ''u'' ''r'') GitHubImageHost_new)
                 [\<lparr>m_error = NoError, m_data = sha_body\<rparr>]"
      and urlStr = "''https://api.github.com/repos/u/r/contents/img.png''"
      and rawHeader = "[(''Authorization'', ''token t''),
                        (''Accept'', ''application/vnd.github.v3+json'')]"
      and reply = "\<lparr>m_error = NoError, m_data = sha_body\<rparr>" and n = "[]"]
  by (simp add: test_defs)

text \<open>
  C1, amended. With a non-empty path and a ready object, when the GET that looks for the
  resource reports not-found, \<open>create\<close> issues after it one PUT to the same URL, whose
  body is the JSON text of the object with exactly the members \<open>message\<close>, holding
  \<open>VX_ADD: path\<close>, and \<open>content\<close>, holding the Base64 text of the content. When the PUT
  reports no error and \<open>content.download_url\<close> of the parsed response is a non-empty
  string, that string is returned (and the message is left as it was). When it is empty,
  missing or not a string, and assertions are compiled out or the parsed response has at
  least one member, the empty URL is returned with the message
  \<open>Failed to create resource at the image host (url) (error) (body).\<close>; with assertions
  compiled in and a parsed response without members, the call stops at the assertion
  \<^verbatim>\<open>Q_ASSERT(!replyObj.isEmpty())\<close> instead.
\<close>

theorem create_new_resource:
  assumes "p_path \<noteq> []" and "ready (self s)"
    and "urlStr = c_apiUrl @ ''/repos/'' @ m_userName (self s) @ ''/'' @ m_repoName (self s)
                  @ ''/contents/'' @ p_path"
    and "rawHeader = [(''Authorization'', toUtf8 e (''token '' @ m_personalAccessToken (self s))),
                      (''Accept'', ''application/vnd.github.v3+json'')]"
    and "send e (Get urlStr rawHeader) (net_state s) = (reply, n)"
    and "m_error reply = ContentNotFoundError"
    and "requestData = toJsonString e [''message'' \<mapsto> JString (''VX_ADD: '' @ p_path),
                                        ''content'' \<mapsto> JString (fromUtf8 e (toBase64 p_content))]"
    and "send e (Put urlStr rawHeader requestData) n = (reply', n')"
    and "replyObj = fromJsonString e (m_data reply')"
    and "targetUrl = toString (jvalue (toObject (jvalue replyObj ''content'')) ''download_url'')"
  shows "snd (create e p_content p_path p_msg s)
           = s\<lparr>net_state := n',
                net_log := net_log s @ [Get urlStr rawHeader, Put urlStr rawHeader requestData]\<rparr>
       \<and> (m_error reply' = NoError \<and> targetUrl \<noteq> [] \<longrightarrow>
            fst (create e p_content p_path p_msg s) = Returned (targetUrl, p_msg))
       \<and> (m_error reply' = NoError \<and> targetUrl = [] \<and> (qt_no_debug e \<or> replyObj \<noteq> Map.empty) \<longrightarrow>
            fst (create e p_content p_path p_msg s)
              = Returned ([], ''Failed to create resource at the image host ('' @ urlStr @ '') (''
                              @ errorStr e reply' @ '') ('' @ fromUtf8 e (m_data reply') @ '').''))
       \<and> (m_error reply' = NoError \<and> \<not> qt_no_debug e \<and> replyObj = Map.empty \<longrightarrow>
            fst (create e p_content p_path p_msg s) = AssertFailed)"
  using assms(1,2,5,6,8) unfolding assms(3,4,7,9,10)
  by (auto simp add: create_def createResource_def Q_ASSERT_def jisEmpty_def jvalue_def call_defs
      Let_def)

theorem create_new_resource_witness:
  "create (test_env False) ''Man'' ''img.png'' []
     (test_state (setConfig (test_config ''t'' ''u'' ''r'') GitHubImageHost_new)
        [\<lparr>m_error = ContentNotFoundError, m_data = not_found_body\<rparr>,
         \<lparr>m_error = NoError, m_data = created_body\<rparr>])
   = (Returned (''https://raw.githubusercontent.com/u/r/master/img.png'', []),
      \<lparr>self = setConfig (test_config ''t'' ''u'' ''r'') GitHubImageHost_new,
       net_state = [],
       net_log = [Get ''https://api.github.com/repos/u/r/contents/img.png''
                    [(''Authorization'', ''token t''),
                     (''Accept'', ''application/vnd.github.v3+json'')],
                  Put ''https://api.github.com/repos/u/r/contents/img.png''
                    [(''Authorization'', ''token t''),
                     (''Accept'', ''application/vnd.github.v3+json'')]
                    (''{'' @ quoted ''content'' @ '':'' @ quoted ''TWFu'' @ '','' @ quoted ''message''
                     @ '':'' @ quoted ''VX_ADD: img.png'' @ ''}'')]\<rparr>)"
proof -
  let ?s = "test_state (setConfig (test_config ''t'' ''u'' ''r'') GitHubImageHost_new)
        [\<lparr>m_error = ContentNotFoundError, m_data = not_found_body\<rparr>,
         \<lparr>m_error = NoError, m_data = created_body\<rparr>]"
  let ?url = "''https://api.github.com/repos/u/r/contents/img.png''"
  let ?hdr = "[(''Authorization'', ''token t''), (''Accept'', ''application/vnd.github.v3+json'')]"
  let ?body = "''{'' @ quoted ''content'' @ '':'' @ quoted ''TWFu'' @ '','' @ quoted ''message''
                     @ '':'' @ quoted ''VX_ADD: img.png'' @ ''}''"
  have b: "?body = toJsonString (test_env False)
                     [''message'' \<mapsto> JString (''VX_ADD: '' @ ''img.png''),
                      ''content'' \<mapsto> JString (fromUtf8 (test_env False) (toBase64 ''Man''))]"
    by (simp add: test_env_def test_toJsonString_def base64_char_def base64_alphabet_def)
  have t: "''https://raw.githubusercontent.com/u/r/master/img.png''
             = toString (jvalue (toObject (jvalue (test_fromJsonString created_body) ''content''))
                 ''download_url'')"
    by (simp add: test_fromJsonString_def jvalue_def created_body_def sha_body_def quoted_def)
  have "snd (create (test_env False) ''Man'' ''img.png'' [] ?s)
          = ?s\<lparr>net_state := [], net_log := net_log ?s @ [Get ?url ?hdr, Put ?url ?hdr ?body]\<rparr>
        \<and> fst (create (test_env False) ''Man'' ''img.png'' [] ?s)
          = Returned (''https://raw.githubusercontent.com/u/r/master/img.png'', [])"
    using create_new_resource[where e = "test_env False" and p_content = "''Man''"
      and p_path = "''img.png''" and p_msg = "[]" and s = ?s and urlStr = ?url
      and rawHeader = ?hdr
      and reply = "\<lparr>m_error = ContentNotFoundError, m_data = not_found_body\<rparr>"
      and n = "[\<lparr>m_error = NoError, m_data = created_body\<rparr>]"
      and requestData = ?body
      and reply' = "\<lparr>m_error = NoError, m_data = created_body\<rparr>" and n' = "[]"
      and replyObj = "test_fromJsonString created_body"
      and targetUrl = "''https://raw.githubusercontent.com/u/r/master/img.png''", OF _ _ _ _ _ _ b _ _ t]
    by (simp add: test_defs)
  then show ?thesis
    by (simp add: prod_eq_iff test_state_def)
qed

text \<open>
  Without that condition the last part fails: in a build with assertions, when the PUT
  reports no error and its response parses to the object without members (here the empty
  body), \<open>create\<close> does not return the empty URL with a message, the assertion stops
  it.
\<close>

theorem create_empty_reply_counterexample:
  "m_error \<lparr>m_error = NoError, m_data = []\<rparr> = NoError
   \<and> toString (jvalue (toObject (jvalue (fromJsonString (test_env False) []) ''content''))
        ''download_url'') = []
   \<and> fst (create (test_env False) ''Man'' ''img.png'' []
        (test_state (setConfig (test_config ''t'' ''u'' ''r'') GitHubImageHost_new)
           [\<lparr>m_error = ContentNotFoundError, m_data = not_found_body\<rparr>,
            \<lparr>m_error = NoError, m_data = []\<rparr>]))
     = AssertFailed"
  by (simp add: create_def createResource_def Q_ASSERT_def jisEmpty_def jvalue_def call_defs
      Let_def test_defs test_fromJsonString_def sha_body_def created_body_def not_found_body_def
      quoted_def)

text \<open>
  C8. When the object is not ready, \<open>create\<close> (and \<open>createResource\<close>) with a non-empty
  path and \<open>remove\<close> (the specification's \<open>deleteResource\<close>) with an owned URL return
  failure with the message \<open>Invalid GitHub image host configuration.\<close>; the state after
  the call is the state before it, so no call is issued and the stored configuration is
  unchanged.
\<close>

theorem not_ready_fails:
  assumes "\<not> ready (self s)"
  shows "(p_path \<noteq> [] \<longrightarrow>
            create e p_data p_path p_msg s
              = (Returned ([], ''Invalid GitHub image host configuration.''), s)
            \<and> createResource e p_data p_path p_msg s
              = (Returned ([], ''Invalid GitHub image host configuration.''), s))
       \<and> (ownsUrl (self s) p_url \<longrightarrow>
            remove e p_url p_msg s
              = (Returned (False, ''Invalid GitHub image host configuration.''), s))"
  using assms by (simp add: create_def createResource_def remove_def Q_ASSERT_def)

theorem not_ready_fails_witness:
  "\<not> ready (setConfig (test_config [] ''u'' ''r'') GitHubImageHost_new)
   \<and> create (test_env False) ''Man'' ''img.png'' ''old''
       (test_state (setConfig (test_config [] ''u'' ''r'') GitHubImageHost_new) [])
     = (Returned ([], ''Invalid GitHub image host configuration.''),
        test_state (setConfig (test_config [] ''u'' ''r'') GitHubImageHost_new) [])
   \<and> remove (test_env False) ''https://raw.githubusercontent.com/u/r/master/img.png'' ''old''
       (test_state (setConfig (test_config [] ''u'' ''r'') GitHubImageHost_new) [])
     = (Returned (False, ''Invalid GitHub image host configuration.''),
        test_state (setConfig (test_config [] ''u'' ''r'') GitHubImageHost_new) [])"
  using not_ready_fails[where e = "test_env False" and p_data = "''Man''"
      and p_path = "''img.png''" and p_msg = "''old''"
      and p_url = "''https://raw.githubusercontent.com/u/r/master/img.png''"
      and s = "test_state (setConfig (test_config [] ''u'' ''r'') GitHubImageHost_new) []"]
  by (simp add: test_defs ownsUrl_def startsWith_def)

subsection \<open>Validating a configuration\<close>

text \<open>
  C5. \<open>testConfig\<close> (the specification's \<open>validateConfig\<close>) on a candidate
  configuration: when the token, the owner or the repository read from it is empty, it
  fails with the message
  \<open>PersonalAccessToken/UserName/RepositoryName should not be empty.\<close> and the state is
  unchanged, so no call is issued; otherwise it issues exactly one GET of
  \<open>c_apiUrl/repos/owner/repo\<close> with the two standard headers, returns whether the
  transport reported no error, and sets the message to the text of the response body in
  both cases.
\<close>

theorem testConfig_result:
  assumes "token = toString (jvalue j ''personal_access_token'')"
    and "userName = toString (jvalue j ''user_name'')"
    and "repoName = toString (jvalue j ''repository_name'')"
    and "urlStr = c_apiUrl @ ''/repos/'' @ userName @ ''/'' @ repoName"
    and "rawHeader = [(''Authorization'', toUtf8 e (''token '' @ token)),
                      (''Accept'', ''application/vnd.github.v3+json'')]"
    and "send e (Get urlStr rawHeader) (net_state s) = (reply, n)"
  shows "(token = [] \<or> userName = [] \<or> repoName = [] \<longrightarrow>
            testConfig e j p_msg s
              = ((False, ''PersonalAccessToken/UserName/RepositoryName should not be empty.''), s))
       \<and> (token \<noteq> [] \<and> userName \<noteq> [] \<and> repoName \<noteq> [] \<longrightarrow>
            testConfig e j p_msg s
              = ((m_error reply = NoError, fromUtf8 e (m_data reply)),
                 s\<lparr>net_state := n, net_log := net_log s @ [Get urlStr rawHeader]\<rparr>))"
  using assms by (simp add: testConfig_def parseConfig_eq getRepoInfo_def call_defs Let_def)

theorem testConfig_result_witness:
  "testConfig (test_env False) (test_config [] ''u'' ''r'') ''old''
     (test_state GitHubImageHost_new [\<lparr>m_error = NoError, m_data = ''repo''\<rparr>])
   = ((False, ''PersonalAccessToken/UserName/RepositoryName should not be empty.''),
      test_state GitHubImageHost_new [\<lparr>m_error = NoError, m_data = ''repo''\<rparr>])
   \<and> testConfig (test_env False) (test_config ''t'' ''u'' ''r'') ''old''
     (test_state GitHubImageHost_new [\<lparr>m_error = OtherNetworkError 204, m_data = ''Bad credentials''\<rparr>])
   = ((False, ''Bad credentials''),
      \<lparr>self = GitHubImageHost_new, net_state = [],
       net_log = [Get ''https://api.github.com/repos/u/r''
                    [(''Authorization'', ''token t''),
                     (''Accept'', ''application/vnd.github.v3+json'')]]\<rparr>)"
  using testConfig_result[where e = "test_env False" and j = "test_config [] ''u'' ''r''"
      and p_msg = "''old''"
      and s = "test_state GitHubImageHost_new [\<lparr>m_error = NoError, m_data = ''repo''\<rparr>]"
      and token = "[]" and userName = "''u''" and repoName = "''r''"
      and urlStr = "''https://api.github.com/repos/u/r''"
      and rawHeader = "[(''Authorization'', ''token ''),
                        (''Accept'', ''application/vnd.github.v3+json'')]"
      and reply = "\<lparr>m_error = NoError, m_data = ''repo''\<rparr>" and n = "[]"]
    testConfig_result[where e = "test_env False" and j = "test_config ''t'' ''u'' ''r''"
      and p_msg = "''old''"
      and s = "test_state GitHubImageHost_new
                 [\<lparr>m_error = OtherNetworkError 204, m_data = ''Bad credentials''\<rparr>]"
      and token = "''t''" and userName = "''u''" and repoName = "''r''"
      and urlStr = "''https://api.github.com/repos/u/r''"
      and rawHeader = "[(''Authorization'', ''token t''),
                        (''Accept'', ''application/vnd.github.v3+json'')]"
      and reply = "\<lparr>m_error = OtherNetworkError 204, m_data = ''Bad credentials''\<rparr>"
      and n = "[]"]
  by (simp add: test_defs test_config_def jvalue_def)

subsection \<open>Deleting a resource\<close>



text \<open>
  C4, amended. For an owned URL and a ready object, when the GET for the SHA reports no
  error and the \<open>sha\<close> of the parsed response is empty, missing or not a string, the GET
  is the only call \<open>remove\<close> issues, so there is no DELETE. When assertions are compiled
  out or the parsed response has at least one member, it returns failure with the message
  \<open>Failed to fetch SHA about the resource (path) (body).\<close>; with assertions compiled in
  and a parsed response without members, the call stops at the assertion
  \<^verbatim>\<open>Q_ASSERT(!replyObj.isEmpty())\<close> instead.
\<close>

theorem remove_missing_sha:
  assumes "ownsUrl (self s) p_url" and "ready (self s)"
    and "rest = drop (length (m_imageUrlPrefix (self s))) p_url"
    and "resourcePath = purifyUrl e rest"
    and "urlStr = c_apiUrl @ ''/repos/'' @ m_userName (self s) @ ''/'' @ m_repoName (self s)
                  @ ''/contents/'' @ resourcePath"
    and "rawHeader = [(''Authorization'', toUtf8 e (''token '' @ m_personalAccessToken (self s))),
                      (''Accept'', ''application/vnd.github.v3+json'')]"
    and "send e (Get urlStr rawHeader) (net_state s) = (reply, n)"
    and "m_error reply = NoError"
    and "replyObj = fromJsonString e (m_data reply)"
    and "toString (jvalue replyObj ''sha'') = []"
  shows "snd (remove e p_url p_msg s)
           = s\<lparr>net_state := n, net_log := net_log s @ [Get urlStr rawHeader]\<rparr>
       \<and> filter is_Delete (net_log (snd (remove e p_url p_msg s))) = filter is_Delete (net_log s)
       \<and> (qt_no_debug e \<or> replyObj \<noteq> Map.empty \<longrightarrow>
            fst (remove e p_url p_msg s)
              = Returned (False, ''Failed to fetch SHA about the resource ('' @ resourcePath
                                 @ '') ('' @ fromUtf8 e (m_data reply) @ '').''))
       \<and> (\<not> qt_no_debug e \<and> replyObj = Map.empty \<longrightarrow>
            fst (remove e p_url p_msg s) = AssertFailed)"
  using assms(1,2,7,8,10) unfolding assms(3,4,5,6,9)
  by (auto simp add: remove_def Q_ASSERT_def jisEmpty_def mid_def call_defs Let_def)

theorem remove_missing_sha_witness:
  "remove (test_env False) ''https://raw.githubusercontent.com/u/r/master/img.png'' []
     (test_state (setConfig (test_config ''t'' ''u'' ''r'') GitHubImageHost_new)
        [\<lparr>m_error = NoError, m_data = not_found_body\<rparr>])
   = (Returned (False, ''Failed to fetch SHA about the resource (img.png) ('' @ not_found_body
                       @ '').''),
      \<lparr>self = setConfig (test_config ''t'' ''u'' ''r'') GitHubImageHost_new,
       net_state = [],
       net_log = [Get ''https://api.github.com/repos/u/r/contents/img.png''
                    [(''Authorization'', ''token t''),
                     (''Accept'', ''application/vnd.github.v3+json'')]]\<rparr>)"
proof -
  let ?s = "test_state (setConfig (test_config ''t'' ''u'' ''r'') GitHubImageHost_new)
        [\<lparr>m_error = NoError, m_data = not_found_body\<rparr>]"
  let ?url = "''https://api.github.com/repos/u/r/contents/img.png''"
  let ?hdr = "[(''Authorization'', ''token t''), (''Accept'', ''application/vnd.github.v3+json'')]"
  have own: "ownsUrl (self ?s) ''https://raw.githubusercontent.com/u/r/master/img.png''"
    by (simp add: test_defs ownsUrl_def startsWith_def)
  have obj: "[''message'' \<mapsto> JString ''Not Found'']
               = fromJsonString (test_env False)
                   (m_data \<lparr>m_error = NoError, m_data = not_found_body\<rparr>)"
    by (simp add: test_env_def test_fromJsonString_def not_found_body_def sha_body_def
        created_body_def quoted_def)
  have ne: "[''message'' \<mapsto> JString ''Not Found''] \<noteq> Map.empty"
    by simp
  have "snd (remove (test_env False) ''https://raw.githubusercontent.com/u/r/master/img.png'' [] ?s)
          = ?s\<lparr>net_state := [], net_log := net_log ?s @ [Get ?url ?hdr]\<rparr>
        \<and> fst (remove (test_env False) ''https://raw.githubusercontent.com/u/r/master/img.png'' []
             ?s)
          = Returned (False, ''Failed to fetch SHA about the resource (img.png) (''
                             @ not_found_body @ '').'')"
    using ne remove_missing_sha[where e = "test_env False" and s = ?s and p_msg = "[]"
      and p_url = "''https://raw.githubusercontent.com/u/r/master/img.png''"
      and rest = "''img.png''" and resourcePath = "''img.png''" and urlStr = ?url
      and rawHeader = ?hdr and reply = "\<lparr>m_error = NoError, m_data = not_found_body\<rparr>"
      and n = "[]" and replyObj = "[''message'' \<mapsto> JString ''Not Found'']",
      OF own _ _ _ _ _ _ _ obj]
    by (simp add: test_defs jvalue_def)
  then show ?thesis
    by (simp add: prod_eq_iff test_state_def)
qed

text \<open>
  Without that condition the returned failure is not guaranteed: in a build with
  assertions, when the response of the GET parses to the object without members (here a
  JSON array, which the Contents API returns for a directory), \<open>remove\<close> does not
  return failure with a message, the assertion stops it.
\<close>

theorem remove_empty_reply_counterexample:
  "ownsUrl (setConfig (test_config ''t'' ''u'' ''r'') GitHubImageHost_new)
      ''https://raw.githubusercontent.com/u/r/master/img.png''
   \<and> ready (setConfig (test_config ''t'' ''u'' ''r'') GitHubImageHost_new)
   \<and> toString (jvalue (fromJsonString (test_env False) ''[]'') ''sha'') = []
   \<and> fst (remove (test_env False) ''https://raw.githubusercontent.com/u/r/master/img.png'' []
        (test_state (setConfig (test_config ''t'' ''u'' ''r'') GitHubImageHost_new)
           [\<lparr>m_error = NoError, m_data = ''[]''\<rparr>]))
     = AssertFailed"
  by (simp add: remove_def Q_ASSERT_def jisEmpty_def jvalue_def mid_def call_defs ownsUrl_def
      startsWith_def Let_def test_defs test_fromJsonString_def sha_body_def created_body_def
      not_found_body_def quoted_def)

end
